theory Spec2Isabelle
  imports Main
begin

section \<open>JavaScript strings\<close>

text \<open>
  The plugin works on JavaScript strings. They are modelled as \<^typ>\<open>string\<close>, one
  \<^typ>\<open>char\<close> per code unit, for the code units 0x00 to 0xFF (ASCII and Latin-1). The
  character classes below are the ECMAScript ones restricted to that range.
\<close>

definition isWhiteSpace :: "char \<Rightarrow> bool" where
  \<comment> \<open>the regular expression class \<open>\s\<close>, and what \<open>String.prototype.trim\<close> strips:
      TAB, LF, VT, FF, CR, SPACE, NBSP\<close>
  "isWhiteSpace c \<longleftrightarrow>
     c = CHR 0x09 \<or> c = CHR 0x0A \<or> c = CHR 0x0B \<or> c = CHR 0x0C \<or> c = CHR 0x0D \<or>
     c = CHR 0x20 \<or> c = CHR 0xA0"

definition isLineTerminator :: "char \<Rightarrow> bool" where
  \<comment> \<open>the characters that the regular expression atom \<open>.\<close> refuses: LF and CR\<close>
  "isLineTerminator c \<longleftrightarrow> c = CHR 0x0A \<or> c = CHR 0x0D"

definition isDigit :: "char \<Rightarrow> bool" where
  \<comment> \<open>the regular expression class \<open>\d\<close>\<close>
  "isDigit c \<longleftrightarrow> (let n = (of_char c :: nat) in 48 \<le> n \<and> n \<le> 57)"

definition isAsciiLetter :: "char \<Rightarrow> bool" where
  \<comment> \<open>the regular expression class \<open>[A-Za-z]\<close>\<close>
  "isAsciiLetter c \<longleftrightarrow>
     (let n = (of_char c :: nat) in (65 \<le> n \<and> n \<le> 90) \<or> (97 \<le> n \<and> n \<le> 122))"

definition toLowerCaseChar :: "char \<Rightarrow> char" where
  \<comment> \<open>\<open>A\<close>..\<open>Z\<close> and the Latin-1 capitals 0xC0..0xDE (without the sign 0xD7) move by 32\<close>
  "toLowerCaseChar c =
     (let n = (of_char c :: nat)
      in if (65 \<le> n \<and> n \<le> 90) \<or> (192 \<le> n \<and> n \<le> 222 \<and> n \<noteq> 215)
         then char_of (n + 32) else c)"

definition toLowerCase :: "string \<Rightarrow> string" where
  "toLowerCase s = map toLowerCaseChar s"

definition trim :: "string \<Rightarrow> string" where
  "trim s = rev (dropWhile isWhiteSpace (rev (dropWhile isWhiteSpace s)))"

fun startsWith :: "string \<Rightarrow> string \<Rightarrow> bool" where
  \<comment> \<open>\<open>s.startsWith(p)\<close>\<close>
  "startsWith s [] = True"
| "startsWith [] (p # ps) = False"
| "startsWith (c # cs) (p # ps) = (c = p \<and> startsWith cs ps)"

fun includesStr :: "string \<Rightarrow> string \<Rightarrow> bool" where
  \<comment> \<open>\<open>s.includes(p)\<close>\<close>
  "includesStr [] p = (p = [])"
| "includesStr (c # cs) p = (startsWith (c # cs) p \<or> includesStr cs p)"

fun split :: "char \<Rightarrow> string \<Rightarrow> string list" where
  \<comment> \<open>\<open>s.split(sep)\<close> for a separator of one character; the empty string gives one
      empty piece\<close>
  "split sep [] = [[]]"
| "split sep (c # cs) =
     (if c = sep then [] # split sep cs
      else (case split sep cs of [] \<Rightarrow> [[c]] | p # ps \<Rightarrow> (c # p) # ps))"

fun join :: "string \<Rightarrow> string list \<Rightarrow> string" where
  \<comment> \<open>\<open>pieces.join(sep)\<close>\<close>
  "join sep [] = []"
| "join sep [p] = p"
| "join sep (p # q # ps) = p @ sep @ join sep (q # ps)"

section \<open>Settings\<close>

datatype locationType = absolute | relative

record DlvPluginSettings =
  dlvLocationType :: locationType
  absolutePath :: string
  relativeExecutable :: string
  availableExecutables :: "string list"
  executionTimeout :: int
  customExtensions :: string
  showErrors :: bool
  showAllModels :: bool
  hideFacts :: bool
  cacheResults :: bool

definition DEFAULT_SETTINGS :: DlvPluginSettings where
  "DEFAULT_SETTINGS =
     \<lparr> dlvLocationType = relative, absolutePath = [],
       relativeExecutable = ''executables/dlv.exe'', availableExecutables = [],
       executionTimeout = 0, customExtensions = ''asp'', showErrors = False,
       showAllModels = False, hideFacts = False, cacheResults = True \<rparr>"

section \<open>Extension matching\<close>

definition extensionTokens :: "DlvPluginSettings \<Rightarrow> string list" where
  \<comment> \<open>\<open>this.settings.customExtensions.split(",").map(e => e.trim().toLowerCase())\<close>\<close>
  "extensionTokens settings =
     map (\<lambda>e. toLowerCase (trim e)) (split CHR '','' (customExtensions settings))"

definition isSupportedLanguage :: "DlvPluginSettings \<Rightarrow> string \<Rightarrow> bool" where
  "isSupportedLanguage settings lang =
     list_ex (\<lambda>e. toLowerCase lang = e \<or> startsWith (toLowerCase lang) (e @ ''.''))
       (extensionTokens settings)"

section \<open>Invocation arguments\<close>

definition buildArgs :: "DlvPluginSettings \<Rightarrow> string \<Rightarrow> string list" where
  \<comment> \<open>\<open>args = [tmpFile]\<close>, then the two conditional \<open>push\<close> calls\<close>
  "buildArgs settings tmpFile =
     (let args = [tmpFile];
          args = (if showAllModels settings then args @ [''-n'', ''0''] else args);
          args = (if hideFacts settings then args @ [''--no-facts''] else args)
      in args)"

definition quoted :: "string \<Rightarrow> string" where
  "quoted arg = ''\"'' @ arg @ ''\"''"

definition commandLine :: "string \<Rightarrow> string list \<Rightarrow> string" where
  \<comment> \<open>the template \<open>"${dlvPath}" ${args.map(arg => `"${arg}"`).join(" ")}\<close>\<close>
  "commandLine dlvPath args = quoted dlvPath @ '' '' @ join '' '' (map quoted args)"

section \<open>Regular expressions\<close>

text \<open>
  A matcher looks at the head of a string and gives the length of the match there, if
  there is one. Each piece takes its longest match and gives nothing back. For the
  expressions of this plugin that is what the backtracking matcher of JavaScript finds
  too: a run \<open>\d+\<close> is always followed by a character that is no digit, \<open>[^\s]+\<close> and
  \<open>.*\<close> end an expression or are followed by an optional piece. The one exception,
  \<open>\s*\n\<close>, has a matcher of its own.
\<close>

type_synonym matcher = "string \<Rightarrow> nat option"

definition lit :: "string \<Rightarrow> matcher" where
  \<comment> \<open>literal text\<close>
  "lit p s = (if take (length p) s = p then Some (length p) else None)"

definition litI :: "string \<Rightarrow> matcher" where
  \<comment> \<open>literal text under flag \<open>i\<close>; \<open>p\<close> is given in lower case\<close>
  "litI p s = (if toLowerCase (take (length p) s) = p then Some (length p) else None)"

definition plus :: "(char \<Rightarrow> bool) \<Rightarrow> matcher" where
  \<comment> \<open>\<open>[class]+\<close>\<close>
  "plus P s = (let n = length (takeWhile P s) in if n = 0 then None else Some n)"

definition star :: "(char \<Rightarrow> bool) \<Rightarrow> matcher" where
  \<comment> \<open>\<open>[class]*\<close>\<close>
  "star P s = Some (length (takeWhile P s))"

definition one :: "(char \<Rightarrow> bool) \<Rightarrow> matcher" where
  \<comment> \<open>one character of a class\<close>
  "one P s = (case s of [] \<Rightarrow> None | c # _ \<Rightarrow> if P c then Some 1 else None)"

definition opt :: "matcher \<Rightarrow> matcher" where
  \<comment> \<open>\<open>(piece)?\<close>\<close>
  "opt m s = (case m s of None \<Rightarrow> Some 0 | Some n \<Rightarrow> Some n)"

definition alt :: "matcher \<Rightarrow> matcher \<Rightarrow> matcher" where
  \<comment> \<open>\<open>left|right\<close>: the left alternative first\<close>
  "alt l r s = (case l s of None \<Rightarrow> r s | Some n \<Rightarrow> Some n)"

fun seqs :: "matcher list \<Rightarrow> matcher" where
  \<comment> \<open>pieces one after the other\<close>
  "seqs [] s = Some 0"
| "seqs (m # ms) s =
     (case m s of None \<Rightarrow> None
      | Some n \<Rightarrow> (case seqs ms (drop n s) of None \<Rightarrow> None | Some k \<Rightarrow> Some (n + k)))"

definition spacesThenLF :: matcher where
  \<comment> \<open>\<open>\s*\n\<close>: \<open>\s*\<close> takes the whole run of white space, then gives back as far as
      the last line feed of the run\<close>
  "spacesThenLF s =
     (let w = takeWhile isWhiteSpace s
      in if CHR 0x0A \<in> set w
         then Some (length w - length (takeWhile (\<lambda>c. c \<noteq> CHR 0x0A) (rev w)))
         else None)"

fun replaceAll :: "matcher \<Rightarrow> (string \<Rightarrow> string) \<Rightarrow> string \<Rightarrow> string" where
  \<comment> \<open>\<open>s.replace(/re/g, ...)\<close>: matches are taken from left to right, the search goes
      on behind each match; \<open>rep\<close> gets the matched text. No expression here matches
      the empty string.\<close>
  "replaceAll m rep [] = []"
| "replaceAll m rep (c # cs) =
     (case m (c # cs) of
        None \<Rightarrow> c # replaceAll m rep cs
      | Some n \<Rightarrow> rep (take n (c # cs)) @ replaceAll m rep (drop (n - 1) cs))"

fun findFirst :: "matcher \<Rightarrow> string \<Rightarrow> (string \<times> string) option" where
  \<comment> \<open>\<open>s.match(/re/)\<close>: the leftmost match, as the matched text and the text behind it\<close>
  "findFirst m [] = None"
| "findFirst m (c # cs) =
     (case m (c # cs) of
        None \<Rightarrow> findFirst m cs
      | Some n \<Rightarrow> Some (take n (c # cs), drop n (c # cs)))"

section \<open>Output sanitizer\<close>

definition versionBanner :: matcher where
  \<comment> \<open>\<open>/^DLV \d+\.\d+\.\d+\s*\n/\<close>, tried at the start of the output only\<close>
  "versionBanner =
     seqs [lit ''DLV '', plus isDigit, lit ''.'', plus isDigit, lit ''.'', plus isDigit,
           spacesThenLF]"

definition genericWarning :: matcher where
  \<comment> \<open>\<open>/Generic warning: .*\n?/g\<close>\<close>
  "genericWarning =
     seqs [lit ''Generic warning: '', star (\<lambda>c. \<not> isLineTerminator c),
           opt (lit ''\<newline>'')]"

definition cleanOutput :: "string \<Rightarrow> string" where
  "cleanOutput output =
     trim (replaceAll genericWarning (\<lambda>_. [])
       (case versionBanner output of None \<Rightarrow> output | Some n \<Rightarrow> drop n output))"

definition filePath :: matcher where
  \<comment> \<open>\<open>/([A-Za-z]:\\[^\s]+|\/[^\s]+)/g\<close>\<close>
  "filePath =
     alt (seqs [one isAsciiLetter, lit '':'', lit [CHR 0x5C], plus (\<lambda>c. \<not> isWhiteSpace c)])
         (seqs [lit ''/'', plus (\<lambda>c. \<not> isWhiteSpace c)])"

definition tempFileName :: matcher where
  \<comment> \<open>\<open>/(dlv-temp-\d+\.asp)/gi\<close>\<close>
  "tempFileName = seqs [litI ''dlv-temp-'', plus isDigit, litI ''.asp'']"

definition lineLabel :: matcher where
  \<comment> \<open>\<open>/(line \d+):/i\<close>\<close>
  "lineLabel = seqs [litI ''line '', plus isDigit, lit '':'']"

definition stripToColon :: "string \<Rightarrow> string" where
  \<comment> \<open>\<open>.replace(/^.*?:\s*/, '')\<close>: up to the first colon, when no line terminator stands
      before it, and the white space behind the colon\<close>
  "stripToColon s =
     (let pre = takeWhile (\<lambda>c. c \<noteq> CHR '':'' \<and> \<not> isLineTerminator c) s
      in case drop (length pre) s of
           [] \<Rightarrow> s
         | c # rest \<Rightarrow> if c = CHR '':'' then dropWhile isWhiteSpace rest else s)"

definition cleanLine :: "string \<Rightarrow> string" where
  \<comment> \<open>the function mapped over the lines in \<open>cleanErrors\<close>. For a line with a match
      of \<open>/(line \d+):\s*(.*)/i\<close>, \<open>errorMatch[1]\<close> is the label without its colon and
      \<open>errorMatch[2]\<close> is what \<open>(.*)\<close> takes behind the white space\<close>
  "cleanLine line0 =
     (let line = replaceAll tempFileName (\<lambda>_. ''Input'') (replaceAll filePath (\<lambda>_. []) line0)
      in case findFirst lineLabel line of
           Some (label, behind) \<Rightarrow>
             butlast label @ '': '' @
             stripToColon (takeWhile (\<lambda>c. \<not> isLineTerminator c) (dropWhile isWhiteSpace behind))
         | None \<Rightarrow>
             if includesStr line ''Command failed:'' \<or> includesStr line ''Aborting due to''
             then [] else line)"

definition isDotOrColon :: "char \<Rightarrow> bool" where
  "isDotOrColon c \<longleftrightarrow> c = CHR ''.'' \<or> c = CHR '':''"

definition stripTrailingDots :: "string \<Rightarrow> string" where
  \<comment> \<open>\<open>.replace(/[.:]+$/, '')\<close>: without flag \<open>m\<close> the \<open>$\<close> is the end of the text, so
      the leftmost match is the whole run of dots and colons that ends the text\<close>
  "stripTrailingDots s = rev (dropWhile isDotOrColon (rev s))"

definition cleanErrors :: "string \<Rightarrow> string" where
  "cleanErrors errorOutput =
     (let lines = filter (\<lambda>line. trim line \<noteq> [])
                    (map cleanLine (split CHR 0x0A errorOutput))
      in trim (stripTrailingDots
           (replaceAll lineLabel (\<lambda>label. ''Errore:\<newline>'' @ butlast label)
              (join ''\<newline>'' lines))))"

section \<open>Temporary file names\<close>

definition digitChar :: "nat \<Rightarrow> char" where
  "digitChar d = char_of (48 + d)"

fun digitsOf :: "nat \<Rightarrow> string" where
  \<comment> \<open>the decimal digits of a natural number\<close>
  "digitsOf n = (if n < 10 then [digitChar n] else digitsOf (n div 10) @ [digitChar (n mod 10)])"

declare digitsOf.simps [simp del]

definition numberToString :: "int \<Rightarrow> string" where
  \<comment> \<open>a number with an integral value, as a template literal renders it\<close>
  "numberToString i = (if i < 0 then CHR ''-'' # digitsOf (nat (- i)) else digitsOf (nat i))"

definition tmpName :: "int \<Rightarrow> string \<Rightarrow> string" where
  \<comment> \<open>the template \<open>dlv-temp-${Date.now()}.${lang}\<close>; \<open>now\<close> is what \<open>Date.now()\<close>
      returns, the milliseconds of the clock\<close>
  "tmpName now lang = ''dlv-temp-'' @ numberToString now @ ''.'' @ lang"

section \<open>Execution engine\<close>

text \<open>
  A thrown value is an \<open>Error\<close> with its message, or some other value. The world of a
  call fixes what lies outside the plugin: the file system calls, the clock, the solver
  process and the caller's abort signal. \<open>path.join\<close>, of the platform, is a parameter.
\<close>

datatype thrown = Error string | Other

datatype abortTime =
    DuringAccess        \<comment> \<open>while \<open>fs.access\<close> is awaited\<close>
  | DuringMkdir         \<comment> \<open>while \<open>fs.mkdir\<close> is awaited\<close>
  | DuringWriteFile     \<comment> \<open>while \<open>fs.writeFile\<close> is awaited\<close>
  | AfterSpawn nat      \<comment> \<open>so many milliseconds after the spawn\<close>

datatype process =
    Exits nat string string  \<comment> \<open>exit code 0 after so many milliseconds, with stdout and stderr\<close>
  | Fails nat thrown         \<comment> \<open>\<open>exec\<close> rejects after so many milliseconds: spawn error, exit code not 0\<close>
  | NeverExits

record world =
  pluginPath :: string
  pathJoin :: "string \<Rightarrow> string \<Rightarrow> string"
  accessResult :: "thrown option"     \<comment> \<open>\<open>fs.access(dlvPath)\<close>; \<open>None\<close>: it resolves\<close>
  tmpdir :: string
  mkdirResult :: "thrown option"
  now :: int
  writeFileResult :: "thrown option"
  solver :: process
  abortAt :: "abortTime option"       \<comment> \<open>when the caller's signal aborts; \<open>None\<close>: never\<close>
  unlinkResult :: "thrown option"

datatype effect =
    Register                  \<comment> \<open>\<open>activeAbortControllers.add(controller)\<close>\<close>
  | Access string
  | Mkdir string
  | WriteFile string string
  | Spawn string
  | Abort                     \<comment> \<open>\<open>controller.abort()\<close>, which ends the child process\<close>
  | Unlink string
  | Deregister                \<comment> \<open>\<open>activeAbortControllers.delete(controller)\<close>\<close>

record result =
  stdout :: string
  stderr :: string

datatype 'a completion = Normal 'a | Abrupt thrown | Waiting

definition getDlvPath :: "DlvPluginSettings \<Rightarrow> world \<Rightarrow> string" where
  "getDlvPath settings w =
     (if dlvLocationType settings = absolute then absolutePath settings
      else pathJoin w (pluginPath w) (relativeExecutable settings))"

definition abortError :: thrown where
  \<comment> \<open>what \<open>exec\<close> rejects with when its signal aborts\<close>
  "abortError = Error ''The operation was aborted''"

definition execPromise :: "world \<Rightarrow> (nat \<times> (string \<times> string) completion \<times> bool) option" where
  \<comment> \<open>when \<open>execAsync\<close> settles, with what, and whether the controller has aborted by
      then; \<open>None\<close>: never. An abort that comes no later than the end of the process
      wins. With a signal that has aborted before the spawn, \<open>exec\<close> rejects at once.\<close>
  "execPromise w =
     (let ended = (case solver w of
                     Exits d out err \<Rightarrow> Some (d, Normal (out, err))
                   | Fails d e \<Rightarrow> Some (d, Abrupt e)
                   | NeverExits \<Rightarrow> None)
      in case abortAt w of
           None \<Rightarrow> map_option (\<lambda>(d, r). (d, r, False)) ended
         | Some (AfterSpawn a) \<Rightarrow>
             (case ended of
                None \<Rightarrow> Some (a, Abrupt abortError, True)
              | Some (d, r) \<Rightarrow>
                  if d < a then Some (d, r, False) else Some (a, Abrupt abortError, True))
         | Some _ \<Rightarrow> Some (0, Abrupt abortError, True))"

definition awaitExec :: "DlvPluginSettings \<Rightarrow> world \<Rightarrow> (string \<times> string) completion \<times> bool" where
  \<comment> \<open>the \<open>await\<close> of lines 327 to 334: the race against the timer when
      \<open>executionTimeout > 0\<close>, the plain \<open>await execPromise\<close> otherwise. The timer wins
      when it is due before \<open>execPromise\<close> settles.\<close>
  "awaitExec settings w =
     (if executionTimeout settings > 0 then
        (case execPromise w of
           None \<Rightarrow> (Abrupt (Error ''Execution timeout''), False)
         | Some (t, r, aborted) \<Rightarrow>
             if executionTimeout settings < int t
             then (Abrupt (Error ''Execution timeout''), False)
             else (r, aborted))
      else
        (case execPromise w of
           None \<Rightarrow> (Waiting, False)
         | Some (t, r, aborted) \<Rightarrow> (r, aborted)))"

definition abortedBy :: "abortTime list \<Rightarrow> world \<Rightarrow> bool" where
  \<comment> \<open>\<open>controller.signal.aborted\<close>, when the awaits of \<open>stages\<close> are over: the handler
      \<open>signal.onabort\<close> is installed in front of the \<open>try\<close> block\<close>
  "abortedBy stages w = (case abortAt w of None \<Rightarrow> False | Some t \<Rightarrow> t \<in> set stages)"

definition abortsDuring :: "abortTime \<Rightarrow> world \<Rightarrow> effect list" where
  "abortsDuring t w = (if abortAt w = Some t then [Abort] else [])"

definition tryBlock ::
  "DlvPluginSettings \<Rightarrow> world \<Rightarrow> string \<Rightarrow> string \<Rightarrow> result completion \<times> bool \<times> effect list" where
  \<comment> \<open>the \<open>try\<close> block: how it completes, \<open>controller.signal.aborted\<close> at that moment,
      and what it did. An abort does not stop the file system calls: they take no signal.\<close>
  "tryBlock settings w content lang =
     (let dlvPath = getDlvPath settings w;
          accessed = [Access dlvPath] @ abortsDuring DuringAccess w in
      case accessResult w of
        Some e \<Rightarrow> (Abrupt e, abortedBy [DuringAccess] w, accessed)
      | None \<Rightarrow>
     (let tmpDir = tmpdir w;
          made = accessed @ [Mkdir tmpDir] @ abortsDuring DuringMkdir w in
      case mkdirResult w of
        Some e \<Rightarrow> (Abrupt e, abortedBy [DuringAccess, DuringMkdir] w, made)
      | None \<Rightarrow>
     (let tmpFile = pathJoin w tmpDir (tmpName (now w) lang);
          written = made @ [WriteFile tmpFile content] @ abortsDuring DuringWriteFile w in
      case writeFileResult w of
        Some e \<Rightarrow>
          (Abrupt e, abortedBy [DuringAccess, DuringMkdir, DuringWriteFile] w, written)
      | None \<Rightarrow>
     (let args = buildArgs settings tmpFile;
          steps = written @ [Spawn (commandLine dlvPath args)]
      in case awaitExec settings w of
           (Waiting, aborted) \<Rightarrow> (Waiting, aborted, steps)
         | (Abrupt e, aborted) \<Rightarrow>
             (Abrupt e, aborted,
              steps @ (case abortAt w of
                         Some (AfterSpawn a) \<Rightarrow> if aborted then [Abort] else []
                       | _ \<Rightarrow> []))
         | (Normal (out, err), aborted) \<Rightarrow>
             \<comment> \<open>\<open>await fs.unlink(tmpFile).catch(() => {})\<close>: a rejection is swallowed\<close>
             (case unlinkResult w of
                _ \<Rightarrow> (Normal \<lparr> stdout = cleanOutput out, stderr = cleanErrors err \<rparr>,
                       aborted, steps @ [Unlink tmpFile]))))))"

definition catchBlock :: "bool \<Rightarrow> thrown \<Rightarrow> thrown + result" where
  \<comment> \<open>the \<open>catch\<close> block; \<open>aborted\<close> is \<open>controller.signal.aborted\<close>. The block
      has no statement that can throw: it ends in its \<open>return\<close>\<close>
  "catchBlock aborted error =
     (let errorMessage =
            (case error of
               Error message \<Rightarrow> if aborted then ''Execution aborted'' else message
             | Other \<Rightarrow> ''Unknown error'')
      in Inr \<lparr> stdout = [], stderr = errorMessage \<rparr>)"

datatype outcome = Returns result | Throws thrown | Pending

record run =
  outcome :: outcome               \<comment> \<open>what the caller of \<open>executeDlv\<close> gets\<close>
  signalAborted :: bool            \<comment> \<open>\<open>controller.signal.aborted\<close> at that moment\<close>
  effects :: "effect list"         \<comment> \<open>what the call has done by then, in order\<close>

definition executeDlv :: "DlvPluginSettings \<Rightarrow> world \<Rightarrow> string \<Rightarrow> string \<Rightarrow> run" where
  \<comment> \<open>\<open>try\<close>, \<open>catch\<close>, \<open>finally\<close>. The statements in front of the \<open>try\<close> block
      build the controller and register it; the \<open>finally\<close> block, which deregisters it,
      runs once the \<open>try\<close> block or the \<open>catch\<close> block has completed. What the
      \<open>catch\<close> block would throw would reach the caller.\<close>
  "executeDlv settings w content lang =
     (case tryBlock settings w content lang of
        (Normal r, aborted, steps) \<Rightarrow>
          \<lparr> outcome = Returns r, signalAborted = aborted,
            effects = Register # steps @ [Deregister] \<rparr>
      | (Abrupt e, aborted, steps) \<Rightarrow>
          \<lparr> outcome = (case catchBlock aborted e of Inr r \<Rightarrow> Returns r | Inl e' \<Rightarrow> Throws e'),
            signalAborted = aborted,
            effects = Register # steps @ [Deregister] \<rparr>
      | (Waiting, aborted, steps) \<Rightarrow>
          \<lparr> outcome = Pending, signalAborted = aborted, effects = Register # steps \<rparr>)"

text \<open>
  A world for the examples: the plugin in a vault, a POSIX \<open>path.join\<close> on plain
  names, a file system that does what it is asked, and a solver that answers in 40 ms.
\<close>

definition exampleWorld :: world where
  "exampleWorld =
     \<lparr> pluginPath = ''/vault/.obsidian/plugins/dlv'',
       pathJoin = (\<lambda>dir file. dir @ ''/'' @ file),
       accessResult = None, tmpdir = ''/tmp'', mkdirResult = None, now = 1700000000000,
       writeFileResult = None, solver = Exits 40 ''DLV 2.1.0\<newline>{a,b}\<newline>'' [],
       abortAt = None, unlinkResult = None \<rparr>"

section \<open>Result sinks\<close>








section \<open>Properties of the string operations\<close>

lemma toLowerCase_Nil: "toLowerCase [] = []"
  by (simp add: toLowerCase_def)

lemma toLowerCase_dot: "toLowerCase (CHR ''.'' # rest) = CHR ''.'' # toLowerCase rest"
  by (simp add: toLowerCase_def toLowerCaseChar_def)

lemma trim_Nil: "trim [] = []"
  by (simp add: trim_def)

lemma startsWith_append: "startsWith s p \<longleftrightarrow> (\<exists>rest. s = p @ rest)"
  by (induction s p rule: startsWith.induct) auto

lemma dropWhile_rev_dropWhile:
  "dropWhile P (rev (dropWhile P (rev (dropWhile P s)))) = rev (dropWhile P (rev (dropWhile P s)))"
proof (cases "dropWhile P (rev (dropWhile P s)) = []")
  case True
  show ?thesis by (simp only: True rev.simps dropWhile.simps)
next
  case False
  define a where "a = dropWhile P s"
  from False have nonempty: "dropWhile P (rev a) \<noteq> []" by (simp add: a_def)
  then have "a \<noteq> []" by auto
  then have "\<not> P (hd a)" unfolding a_def by (rule hd_dropWhile)
  moreover have "hd (rev (dropWhile P (rev a))) = hd a"
  proof -
    have "rev a = takeWhile P (rev a) @ dropWhile P (rev a)" by simp
    then have "a = rev (dropWhile P (rev a)) @ rev (takeWhile P (rev a))"
      by (metis rev_append rev_rev_ident)
    with nonempty show ?thesis
      by (metis hd_append2 rev_is_Nil_conv)
  qed
  ultimately have "\<not> P (hd (rev (dropWhile P (rev a))))" by simp
  with nonempty have "dropWhile P (rev (dropWhile P (rev a))) = rev (dropWhile P (rev a))"
    by (simp add: dropWhile_eq_self_iff)
  then show ?thesis by (simp add: a_def)
qed

lemma trim_trim: "trim (trim s) = trim s"
  unfolding trim_def by (simp add: dropWhile_rev_dropWhile dropWhile_idem)

lemma cleanOutput_trimmed: "trim (cleanOutput s) = cleanOutput s"
  by (simp add: cleanOutput_def trim_trim)

lemma cleanErrors_trimmed: "trim (cleanErrors s) = cleanErrors s"
  by (simp add: cleanErrors_def trim_trim)

section \<open>Extension matching: results\<close>

text \<open>
  C6, as the code has it. A tag is supported exactly when its lower-cased form equals one
  of the configured tokens (each trimmed and lower-cased) or begins with such a token
  followed by a dot. So tag \<open>asp\<close> matches the configured extension \<open>asp\<close>, and tag
  \<open>asp.variant\<close> matches the configured extension \<open>asp\<close>; tag \<open>asp\<close> matches
  neither the configured extension \<open>aspx\<close> nor the configured extension
  \<open>asp.variant\<close>: the dotted prefix runs from the token to the tag only.
\<close>

theorem isSupportedLanguage_dotted_prefix:
  "(isSupportedLanguage settings lang \<longleftrightarrow>
      (\<exists>e \<in> set (extensionTokens settings).
          toLowerCase lang = e \<or> (\<exists>rest. toLowerCase lang = e @ ''.'' @ rest))) \<and>
   isSupportedLanguage (DEFAULT_SETTINGS\<lparr>customExtensions := ''asp''\<rparr>) ''asp'' \<and>
   isSupportedLanguage (DEFAULT_SETTINGS\<lparr>customExtensions := ''asp''\<rparr>) ''asp.variant'' \<and>
   \<not> isSupportedLanguage (DEFAULT_SETTINGS\<lparr>customExtensions := ''aspx''\<rparr>) ''asp'' \<and>
   \<not> isSupportedLanguage (DEFAULT_SETTINGS\<lparr>customExtensions := ''asp.variant''\<rparr>) ''asp''"
proof -
  have general: "isSupportedLanguage settings lang \<longleftrightarrow>
      (\<exists>e \<in> set (extensionTokens settings).
          toLowerCase lang = e \<or> (\<exists>rest. toLowerCase lang = e @ ''.'' @ rest))"
    by (simp add: isSupportedLanguage_def list_ex_iff startsWith_append)
  have examples:
    "isSupportedLanguage (DEFAULT_SETTINGS\<lparr>customExtensions := ''asp''\<rparr>) ''asp''"
    "isSupportedLanguage (DEFAULT_SETTINGS\<lparr>customExtensions := ''asp''\<rparr>) ''asp.variant''"
    "\<not> isSupportedLanguage (DEFAULT_SETTINGS\<lparr>customExtensions := ''aspx''\<rparr>) ''asp''"
    "\<not> isSupportedLanguage (DEFAULT_SETTINGS\<lparr>customExtensions := ''asp.variant''\<rparr>) ''asp''"
    by code_simp+
  from general examples show ?thesis by blast
qed

theorem isSupportedLanguage_dotted_prefix_witness:
  "\<exists>e \<in> set (extensionTokens (DEFAULT_SETTINGS\<lparr>customExtensions := ''lp, ASP ''\<rparr>)).
      toLowerCase ''Asp.Variant'' = e \<or> (\<exists>rest. toLowerCase ''Asp.Variant'' = e @ ''.'' @ rest)"
proof -
  have "isSupportedLanguage (DEFAULT_SETTINGS\<lparr>customExtensions := ''lp, ASP ''\<rparr>) ''Asp.Variant''"
    by code_simp
  with isSupportedLanguage_dotted_prefix
         [of "DEFAULT_SETTINGS\<lparr>customExtensions := ''lp, ASP ''\<rparr>" "''Asp.Variant''"]
  show ?thesis by blast
qed

text \<open>
  C6, as the claim states it, fails: with the configured extension \<open>asp.variant\<close> the tag
  \<open>asp\<close> is not supported.
\<close>

theorem isSupportedLanguage_asp_variant_counterexample:
  "isSupportedLanguage (DEFAULT_SETTINGS\<lparr>customExtensions := ''asp.variant''\<rparr>) ''asp'' = False"
  by code_simp

text \<open>
  C10. When the comma-separated extension list has an empty piece (a trailing comma, as in
  \<open>asp,\<close>), the empty tag is supported, and so is every tag that begins with a dot.
\<close>

theorem isSupportedLanguage_empty_token:
  "[] \<in> set (split CHR '','' (customExtensions settings)) \<Longrightarrow>
     isSupportedLanguage settings [] \<and>
     (\<forall>rest. isSupportedLanguage settings (CHR ''.'' # rest))"
proof -
  assume "[] \<in> set (split CHR '','' (customExtensions settings))"
  then have "toLowerCase (trim []) \<in> set (extensionTokens settings)"
    unfolding extensionTokens_def by (simp only: set_map) (rule imageI)
  then have tok: "[] \<in> set (extensionTokens settings)"
    by (simp add: trim_Nil toLowerCase_Nil)
  have empty: "isSupportedLanguage settings []"
    using tok by (auto simp: isSupportedLanguage_def list_ex_iff toLowerCase_Nil)
  have dotted: "isSupportedLanguage settings (CHR ''.'' # rest)" for rest
  proof -
    have "startsWith (toLowerCase (CHR ''.'' # rest)) ([] @ ''.'')"
      by (simp add: toLowerCase_dot)
    with tok show ?thesis
      unfolding isSupportedLanguage_def list_ex_iff by blast
  qed
  from empty dotted show ?thesis by blast
qed

theorem isSupportedLanguage_empty_token_witness:
  "[] \<in> set (split CHR '','' (customExtensions (DEFAULT_SETTINGS\<lparr>customExtensions := ''asp,''\<rparr>))) \<and>
   isSupportedLanguage (DEFAULT_SETTINGS\<lparr>customExtensions := ''asp,''\<rparr>) [] \<and>
   isSupportedLanguage (DEFAULT_SETTINGS\<lparr>customExtensions := ''asp,''\<rparr>) ''.foo''"
proof -
  have h: "[] \<in> set (split CHR '','' (customExtensions (DEFAULT_SETTINGS\<lparr>customExtensions := ''asp,''\<rparr>)))"
    by (simp add: DEFAULT_SETTINGS_def)
  from isSupportedLanguage_empty_token [OF h] h show ?thesis by blast
qed

section \<open>Execution engine: results\<close>

lemma tryBlock_cases:
  "(\<exists>r a d. tryBlock settings w content lang = (Normal r, a, d)) \<or>
   (\<exists>e a d. tryBlock settings w content lang = (Abrupt e, a, d)) \<or>
   (\<exists>a d. tryBlock settings w content lang = (Waiting, a, d))"
  by (metis completion.exhaust prod_cases3)

lemma never_throws: "outcome (executeDlv settings w content lang) \<noteq> Throws e"
  using tryBlock_cases [of settings w content lang]
  by (auto simp: executeDlv_def catchBlock_def)

lemma awaitExec_Waiting:
  "fst (awaitExec settings w) = Waiting \<longleftrightarrow>
     solver w = NeverExits \<and> abortAt w = None \<and> executionTimeout settings \<le> 0"
  by (auto simp: awaitExec_def execPromise_def
           split: process.splits option.splits prod.splits if_splits abortTime.splits)

lemma tryBlock_Waiting:
  "fst (tryBlock settings w content lang) = Waiting \<longleftrightarrow>
     accessResult w = None \<and> mkdirResult w = None \<and> writeFileResult w = None \<and>
     fst (awaitExec settings w) = Waiting"
  by (auto simp: tryBlock_def Let_def split: option.splits prod.splits completion.splits)

lemma outcome_Pending:
  "outcome (executeDlv settings w content lang) = Pending \<longleftrightarrow>
     fst (tryBlock settings w content lang) = Waiting"
  using tryBlock_cases [of settings w content lang]
  by (auto simp: executeDlv_def catchBlock_def)

lemma outcome_exhaust:
  "outcome (executeDlv settings w content lang) = Pending \<or>
   (\<exists>r. outcome (executeDlv settings w content lang) = Returns r)"
  using tryBlock_cases [of settings w content lang]
  by (auto simp: executeDlv_def catchBlock_def)

lemma outcome_access_fails:
  "accessResult w = Some e \<Longrightarrow>
     outcome (executeDlv settings w content lang) =
       Returns \<lparr> stdout = [],
                 stderr = (case e of
                             Error message \<Rightarrow>
                               if abortAt w = Some DuringAccess then ''Execution aborted''
                               else message
                           | Other \<Rightarrow> ''Unknown error'') \<rparr>"
  by (auto simp: executeDlv_def tryBlock_def catchBlock_def abortedBy_def Let_def
           split: thrown.splits option.splits)

lemma outcome_mkdir_fails:
  "accessResult w = None \<Longrightarrow> mkdirResult w = Some e \<Longrightarrow>
     outcome (executeDlv settings w content lang) =
       Returns \<lparr> stdout = [],
                 stderr = (case e of
                             Error message \<Rightarrow>
                               if abortAt w \<in> {Some DuringAccess, Some DuringMkdir}
                               then ''Execution aborted'' else message
                           | Other \<Rightarrow> ''Unknown error'') \<rparr>"
  by (auto simp: executeDlv_def tryBlock_def catchBlock_def abortedBy_def Let_def
           split: thrown.splits option.splits)

lemma outcome_writeFile_fails:
  "accessResult w = None \<Longrightarrow> mkdirResult w = None \<Longrightarrow> writeFileResult w = Some e \<Longrightarrow>
     outcome (executeDlv settings w content lang) =
       Returns \<lparr> stdout = [],
                 stderr = (case e of
                             Error message \<Rightarrow>
                               if abortAt w \<in> {Some DuringAccess, Some DuringMkdir,
                                                Some DuringWriteFile}
                               then ''Execution aborted'' else message
                           | Other \<Rightarrow> ''Unknown error'') \<rparr>"
  by (auto simp: executeDlv_def tryBlock_def catchBlock_def abortedBy_def Let_def
           split: thrown.splits option.splits)

lemma outcome_spawned:
  assumes "accessResult w = None" and "mkdirResult w = None" and "writeFileResult w = None"
  shows "outcome (executeDlv settings w content lang) =
           (case awaitExec settings w of
              (Normal (out, err), aborted) \<Rightarrow>
                Returns \<lparr> stdout = cleanOutput out, stderr = cleanErrors err \<rparr>
            | (Abrupt e, aborted) \<Rightarrow>
                Returns \<lparr> stdout = [],
                          stderr = (case e of
                                      Error message \<Rightarrow>
                                        if aborted then ''Execution aborted'' else message
                                    | Other \<Rightarrow> ''Unknown error'') \<rparr>
            | (Waiting, aborted) \<Rightarrow> Pending)"
  using assms
  by (auto simp: executeDlv_def tryBlock_def catchBlock_def Let_def
           split: prod.splits completion.splits thrown.splits)

lemma awaitExec_process_fails:
  assumes "solver w = Fails d e"
    and "abortAt w = None \<or> (\<exists>a. abortAt w = Some (AfterSpawn a) \<and> d < a)"
    and "executionTimeout settings \<le> 0 \<or> int d \<le> executionTimeout settings"
  shows "awaitExec settings w = (Abrupt e, False)"
  using assms by (auto simp: awaitExec_def execPromise_def)

lemma awaitExec_process_exits:
  assumes "solver w = Exits d out err"
    and "abortAt w = None \<or> (\<exists>a. abortAt w = Some (AfterSpawn a) \<and> d < a)"
    and "executionTimeout settings \<le> 0 \<or> int d \<le> executionTimeout settings"
  shows "awaitExec settings w = (Normal (out, err), False)"
  using assms by (auto simp: awaitExec_def execPromise_def)

lemma awaitExec_timeout:
  assumes "0 < executionTimeout settings"
    and "case solver w of Exits d out err \<Rightarrow> executionTimeout settings < int d
         | Fails d e \<Rightarrow> executionTimeout settings < int d | NeverExits \<Rightarrow> True"
    and "case abortAt w of None \<Rightarrow> True
         | Some (AfterSpawn a) \<Rightarrow> executionTimeout settings < int a | Some _ \<Rightarrow> False"
  shows "awaitExec settings w = (Abrupt (Error ''Execution timeout''), False)"
  using assms
  by (auto simp: awaitExec_def execPromise_def
           split: process.splits option.splits abortTime.splits)

lemma awaitExec_aborted_early:
  assumes "abortAt w \<in> {Some DuringAccess, Some DuringMkdir, Some DuringWriteFile}"
  shows "awaitExec settings w = (Abrupt abortError, True)"
  using assms by (auto simp: awaitExec_def execPromise_def)

lemma awaitExec_aborted_late:
  assumes "abortAt w = Some (AfterSpawn a)"
    and "case solver w of Exits d out err \<Rightarrow> a \<le> d | Fails d e \<Rightarrow> a \<le> d | NeverExits \<Rightarrow> True"
    and "executionTimeout settings \<le> 0 \<or> int a \<le> executionTimeout settings"
  shows "awaitExec settings w = (Abrupt abortError, True)"
  using assms
  by (auto simp: awaitExec_def execPromise_def split: process.splits)


text \<open>
  C1, as the code has it. \<open>executeDlv\<close> never passes an exception to its caller, and
  it returns a result whenever the awaited promise settles: a file system call fails, the
  process ends, the signal aborts or a timeout is set. Every failure is returned with
  \<open>stdout\<close> empty and a message in \<open>stderr\<close>. A failing \<open>fs.access\<close> (executable
  missing or not configured), \<open>fs.mkdir\<close> or \<open>fs.writeFile\<close> gives the message of its
  error, or \<open>Execution aborted\<close> when the signal has aborted by then, or \<open>Unknown error\<close>
  for a thrown value that is no \<open>Error\<close>. A spawn error or an exit code that is not 0
  gives the message of the error, a timeout \<open>Execution timeout\<close>, a cancellation
  \<open>Execution aborted\<close>. A process that ends with exit code 0 gives its cleaned output.
\<close>

theorem executeDlv_never_throws:
  "(\<forall>e. outcome (executeDlv settings w content lang) \<noteq> Throws e) \<and>
   (accessResult w \<noteq> None \<or> mkdirResult w \<noteq> None \<or> writeFileResult w \<noteq> None \<or>
    solver w \<noteq> NeverExits \<or> abortAt w \<noteq> None \<or> 0 < executionTimeout settings \<longrightarrow>
      (\<exists>r. outcome (executeDlv settings w content lang) = Returns r)) \<and>
   (\<forall>e. accessResult w = Some e \<longrightarrow>
      outcome (executeDlv settings w content lang) =
        Returns \<lparr> stdout = [],
                  stderr = (case e of
                              Error message \<Rightarrow>
                                if abortAt w = Some DuringAccess then ''Execution aborted''
                                else message
                            | Other \<Rightarrow> ''Unknown error'') \<rparr>) \<and>
   (\<forall>e. accessResult w = None \<and> mkdirResult w = Some e \<longrightarrow>
      outcome (executeDlv settings w content lang) =
        Returns \<lparr> stdout = [],
                  stderr = (case e of
                              Error message \<Rightarrow>
                                if abortAt w \<in> {Some DuringAccess, Some DuringMkdir}
                                then ''Execution aborted'' else message
                            | Other \<Rightarrow> ''Unknown error'') \<rparr>) \<and>
   (\<forall>e. accessResult w = None \<and> mkdirResult w = None \<and> writeFileResult w = Some e \<longrightarrow>
      outcome (executeDlv settings w content lang) =
        Returns \<lparr> stdout = [],
                  stderr = (case e of
                              Error message \<Rightarrow>
                                if abortAt w \<in> {Some DuringAccess, Some DuringMkdir,
                                                 Some DuringWriteFile}
                                then ''Execution aborted'' else message
                            | Other \<Rightarrow> ''Unknown error'') \<rparr>) \<and>
   (accessResult w = None \<and> mkdirResult w = None \<and> writeFileResult w = None \<longrightarrow>
      (\<forall>d e. solver w = Fails d e \<and>
             (abortAt w = None \<or> (\<exists>a. abortAt w = Some (AfterSpawn a) \<and> d < a)) \<and>
             (executionTimeout settings \<le> 0 \<or> int d \<le> executionTimeout settings) \<longrightarrow>
         outcome (executeDlv settings w content lang) =
           Returns \<lparr> stdout = [],
                     stderr = (case e of Error message \<Rightarrow> message
                               | Other \<Rightarrow> ''Unknown error'') \<rparr>) \<and>
      (0 < executionTimeout settings \<and>
       (case solver w of Exits d out err \<Rightarrow> executionTimeout settings < int d
        | Fails d e \<Rightarrow> executionTimeout settings < int d | NeverExits \<Rightarrow> True) \<and>
       (case abortAt w of None \<Rightarrow> True
        | Some (AfterSpawn a) \<Rightarrow> executionTimeout settings < int a | Some _ \<Rightarrow> False) \<longrightarrow>
         outcome (executeDlv settings w content lang) =
           Returns \<lparr> stdout = [], stderr = ''Execution timeout'' \<rparr>) \<and>
      (abortAt w \<in> {Some DuringAccess, Some DuringMkdir, Some DuringWriteFile} \<longrightarrow>
         outcome (executeDlv settings w content lang) =
           Returns \<lparr> stdout = [], stderr = ''Execution aborted'' \<rparr>) \<and>
      (\<forall>a. abortAt w = Some (AfterSpawn a) \<and>
           (case solver w of Exits d out err \<Rightarrow> a \<le> d | Fails d e \<Rightarrow> a \<le> d
            | NeverExits \<Rightarrow> True) \<and>
           (executionTimeout settings \<le> 0 \<or> int a \<le> executionTimeout settings) \<longrightarrow>
         outcome (executeDlv settings w content lang) =
           Returns \<lparr> stdout = [], stderr = ''Execution aborted'' \<rparr>) \<and>
      (\<forall>d out err. solver w = Exits d out err \<and>
             (abortAt w = None \<or> (\<exists>a. abortAt w = Some (AfterSpawn a) \<and> d < a)) \<and>
             (executionTimeout settings \<le> 0 \<or> int d \<le> executionTimeout settings) \<longrightarrow>
         outcome (executeDlv settings w content lang) =
           Returns \<lparr> stdout = cleanOutput out, stderr = cleanErrors err \<rparr>))"
proof (intro conjI allI impI)
  fix e show "outcome (executeDlv settings w content lang) \<noteq> Throws e" by (rule never_throws)
next
  assume "accessResult w \<noteq> None \<or> mkdirResult w \<noteq> None \<or> writeFileResult w \<noteq> None \<or>
    solver w \<noteq> NeverExits \<or> abortAt w \<noteq> None \<or> 0 < executionTimeout settings"
  then have "outcome (executeDlv settings w content lang) \<noteq> Pending"
    unfolding outcome_Pending tryBlock_Waiting awaitExec_Waiting by auto
  with outcome_exhaust [of settings w content lang]
  show "\<exists>r. outcome (executeDlv settings w content lang) = Returns r" by blast
next
  fix e assume "accessResult w = Some e"
  then show "outcome (executeDlv settings w content lang) =
        Returns \<lparr> stdout = [],
                  stderr = (case e of
                              Error message \<Rightarrow>
                                if abortAt w = Some DuringAccess then ''Execution aborted''
                                else message
                            | Other \<Rightarrow> ''Unknown error'') \<rparr>"
    by (rule outcome_access_fails)
next
  fix e assume "accessResult w = None \<and> mkdirResult w = Some e"
  then show "outcome (executeDlv settings w content lang) =
        Returns \<lparr> stdout = [],
                  stderr = (case e of
                              Error message \<Rightarrow>
                                if abortAt w \<in> {Some DuringAccess, Some DuringMkdir}
                                then ''Execution aborted'' else message
                            | Other \<Rightarrow> ''Unknown error'') \<rparr>"
    by (intro outcome_mkdir_fails) simp_all
next
  fix e assume "accessResult w = None \<and> mkdirResult w = None \<and> writeFileResult w = Some e"
  then show "outcome (executeDlv settings w content lang) =
        Returns \<lparr> stdout = [],
                  stderr = (case e of
                              Error message \<Rightarrow>
                                if abortAt w \<in> {Some DuringAccess, Some DuringMkdir,
                                                 Some DuringWriteFile}
                                then ''Execution aborted'' else message
                            | Other \<Rightarrow> ''Unknown error'') \<rparr>"
    by (intro outcome_writeFile_fails) simp_all
next
  fix d e
  assume fs: "accessResult w = None \<and> mkdirResult w = None \<and> writeFileResult w = None"
    and "solver w = Fails d e \<and>
             (abortAt w = None \<or> (\<exists>a. abortAt w = Some (AfterSpawn a) \<and> d < a)) \<and>
             (executionTimeout settings \<le> 0 \<or> int d \<le> executionTimeout settings)"
  then have "awaitExec settings w = (Abrupt e, False)"
    by (intro awaitExec_process_fails) auto
  with fs show "outcome (executeDlv settings w content lang) =
           Returns \<lparr> stdout = [],
                     stderr = (case e of Error message \<Rightarrow> message
                               | Other \<Rightarrow> ''Unknown error'') \<rparr>"
    by (simp add: outcome_spawned split: thrown.splits)
next
  assume fs: "accessResult w = None \<and> mkdirResult w = None \<and> writeFileResult w = None"
    and "0 < executionTimeout settings \<and>
       (case solver w of Exits d out err \<Rightarrow> executionTimeout settings < int d
        | Fails d e \<Rightarrow> executionTimeout settings < int d | NeverExits \<Rightarrow> True) \<and>
       (case abortAt w of None \<Rightarrow> True
        | Some (AfterSpawn a) \<Rightarrow> executionTimeout settings < int a | Some _ \<Rightarrow> False)"
  then have "awaitExec settings w = (Abrupt (Error ''Execution timeout''), False)"
    by (intro awaitExec_timeout) auto
  with fs show "outcome (executeDlv settings w content lang) =
           Returns \<lparr> stdout = [], stderr = ''Execution timeout'' \<rparr>"
    by (simp add: outcome_spawned)
next
  assume fs: "accessResult w = None \<and> mkdirResult w = None \<and> writeFileResult w = None"
    and "abortAt w \<in> {Some DuringAccess, Some DuringMkdir, Some DuringWriteFile}"
  then have "awaitExec settings w = (Abrupt abortError, True)"
    by (intro awaitExec_aborted_early)
  with fs show "outcome (executeDlv settings w content lang) =
           Returns \<lparr> stdout = [], stderr = ''Execution aborted'' \<rparr>"
    by (simp add: outcome_spawned abortError_def)
next
  fix a
  assume fs: "accessResult w = None \<and> mkdirResult w = None \<and> writeFileResult w = None"
    and "abortAt w = Some (AfterSpawn a) \<and>
           (case solver w of Exits d out err \<Rightarrow> a \<le> d | Fails d e \<Rightarrow> a \<le> d
            | NeverExits \<Rightarrow> True) \<and>
           (executionTimeout settings \<le> 0 \<or> int a \<le> executionTimeout settings)"
  then have "awaitExec settings w = (Abrupt abortError, True)"
    by (intro awaitExec_aborted_late) auto
  with fs show "outcome (executeDlv settings w content lang) =
           Returns \<lparr> stdout = [], stderr = ''Execution aborted'' \<rparr>"
    by (simp add: outcome_spawned abortError_def)
next
  fix d out err
  assume fs: "accessResult w = None \<and> mkdirResult w = None \<and> writeFileResult w = None"
    and "solver w = Exits d out err \<and>
             (abortAt w = None \<or> (\<exists>a. abortAt w = Some (AfterSpawn a) \<and> d < a)) \<and>
             (executionTimeout settings \<le> 0 \<or> int d \<le> executionTimeout settings)"
  then have "awaitExec settings w = (Normal (out, err), False)"
    by (intro awaitExec_process_exits) auto
  with fs show "outcome (executeDlv settings w content lang) =
           Returns \<lparr> stdout = cleanOutput out, stderr = cleanErrors err \<rparr>"
    by (simp add: outcome_spawned)
qed

text \<open>
  C2, as the code has it. With \<open>executionTimeout = T > 0\<close>, a process that runs longer
  than \<open>T\<close> and no abort within \<open>T\<close>, the call returns \<open>stdout\<close> empty and \<open>stderr\<close>
  equal to \<open>Execution timeout\<close>. The result has the two fields \<open>stdout\<close> and \<open>stderr\<close>
  only.
\<close>

theorem executeDlv_timeout:
  assumes "0 < executionTimeout settings"
    and "accessResult w = None" and "mkdirResult w = None" and "writeFileResult w = None"
    and "case solver w of Exits d out err \<Rightarrow> executionTimeout settings < int d
         | Fails d e \<Rightarrow> executionTimeout settings < int d | NeverExits \<Rightarrow> True"
    and "case abortAt w of None \<Rightarrow> True
         | Some (AfterSpawn a) \<Rightarrow> executionTimeout settings < int a | Some _ \<Rightarrow> False"
  shows "outcome (executeDlv settings w content lang) =
           Returns \<lparr> stdout = [], stderr = ''Execution timeout'' \<rparr>"
proof -
  have "awaitExec settings w = (Abrupt (Error ''Execution timeout''), False)"
    using assms(1,5,6) by (rule awaitExec_timeout)
  then show ?thesis
    using assms(2-4) by (simp add: outcome_spawned)
qed

lemmas world_simps = exampleWorld_def DEFAULT_SETTINGS_def

lemma digitChar_values:
  "digitChar 0 = CHR ''0''" "digitChar (Suc 0) = CHR ''1''" "digitChar 2 = CHR ''2''"
  "digitChar 3 = CHR ''3''" "digitChar 4 = CHR ''4''" "digitChar 5 = CHR ''5''"
  "digitChar 6 = CHR ''6''" "digitChar 7 = CHR ''7''" "digitChar 8 = CHR ''8''"
  "digitChar 9 = CHR ''9''"
  by code_simp+

lemma numberToString_example: "numberToString 1700000000000 = ''1700000000000''"
  by (simp add: numberToString_def digitsOf.simps digitChar_values)

lemma tmpName_example: "tmpName 1700000000000 lang = ''dlv-temp-1700000000000.'' @ lang"
  by (simp add: tmpName_def numberToString_example)

theorem executeDlv_never_throws_witness:
  "outcome (executeDlv (DEFAULT_SETTINGS\<lparr>dlvLocationType := absolute\<rparr>)
      (exampleWorld\<lparr>accessResult := Some (Error ''ENOENT: no such file or directory, access'')\<rparr>)
      ''a :- b.'' ''asp'') =
     Returns \<lparr> stdout = [], stderr = ''ENOENT: no such file or directory, access'' \<rparr> \<and>
   outcome (executeDlv DEFAULT_SETTINGS
      (exampleWorld\<lparr>accessResult := Some (Error ''ENOENT: no such file or directory, access''),
                     abortAt := Some DuringAccess\<rparr>)
      ''a :- b.'' ''asp'') =
     Returns \<lparr> stdout = [], stderr = ''Execution aborted'' \<rparr> \<and>
   outcome (executeDlv DEFAULT_SETTINGS (exampleWorld\<lparr>writeFileResult := Some Other\<rparr>)
      ''a :- b.'' ''asp'') =
     Returns \<lparr> stdout = [], stderr = ''Unknown error'' \<rparr> \<and>
   outcome (executeDlv DEFAULT_SETTINGS
      (exampleWorld\<lparr>solver := Fails 40 (Error ''Command failed: dlv'')\<rparr>) ''a :- b.'' ''asp'') =
     Returns \<lparr> stdout = [], stderr = ''Command failed: dlv'' \<rparr> \<and>
   outcome (executeDlv (DEFAULT_SETTINGS\<lparr>executionTimeout := 1000\<rparr>)
      (exampleWorld\<lparr>solver := NeverExits\<rparr>) ''a :- b.'' ''asp'') =
     Returns \<lparr> stdout = [], stderr = ''Execution timeout'' \<rparr> \<and>
   outcome (executeDlv DEFAULT_SETTINGS
      (exampleWorld\<lparr>solver := NeverExits, abortAt := Some (AfterSpawn 500)\<rparr>)
      ''a :- b.'' ''asp'') =
     Returns \<lparr> stdout = [], stderr = ''Execution aborted'' \<rparr> \<and>
   outcome (executeDlv DEFAULT_SETTINGS
      (exampleWorld\<lparr>solver := NeverExits, abortAt := Some DuringMkdir\<rparr>)
      ''a :- b.'' ''asp'') =
     Returns \<lparr> stdout = [], stderr = ''Execution aborted'' \<rparr> \<and>
   outcome (executeDlv DEFAULT_SETTINGS
      (exampleWorld\<lparr>solver := Exits 40 ''DLV 2.1.0\<newline>{a,b}\<newline>'' []\<rparr>) ''a :- b.'' ''asp'') =
     Returns \<lparr> stdout = cleanOutput ''DLV 2.1.0\<newline>{a,b}\<newline>'', stderr = cleanErrors [] \<rparr>"
proof (intro conjI)
  show "outcome (executeDlv (DEFAULT_SETTINGS\<lparr>dlvLocationType := absolute\<rparr>)
      (exampleWorld\<lparr>accessResult := Some (Error ''ENOENT: no such file or directory, access'')\<rparr>)
      ''a :- b.'' ''asp'') =
     Returns \<lparr> stdout = [], stderr = ''ENOENT: no such file or directory, access'' \<rparr>"
    using executeDlv_never_throws [of "DEFAULT_SETTINGS\<lparr>dlvLocationType := absolute\<rparr>"
      "exampleWorld\<lparr>accessResult := Some (Error ''ENOENT: no such file or directory, access'')\<rparr>"
      "''a :- b.''" "''asp''"]
    by (simp add: world_simps)
  show "outcome (executeDlv DEFAULT_SETTINGS
      (exampleWorld\<lparr>accessResult := Some (Error ''ENOENT: no such file or directory, access''),
                     abortAt := Some DuringAccess\<rparr>)
      ''a :- b.'' ''asp'') =
     Returns \<lparr> stdout = [], stderr = ''Execution aborted'' \<rparr>"
    using executeDlv_never_throws [of DEFAULT_SETTINGS
      "exampleWorld\<lparr>accessResult := Some (Error ''ENOENT: no such file or directory, access''),
                     abortAt := Some DuringAccess\<rparr>"
      "''a :- b.''" "''asp''"]
    by (simp add: world_simps)
  show "outcome (executeDlv DEFAULT_SETTINGS (exampleWorld\<lparr>writeFileResult := Some Other\<rparr>)
      ''a :- b.'' ''asp'') =
     Returns \<lparr> stdout = [], stderr = ''Unknown error'' \<rparr>"
    using executeDlv_never_throws [of DEFAULT_SETTINGS
      "exampleWorld\<lparr>writeFileResult := Some Other\<rparr>" "''a :- b.''" "''asp''"]
    by (simp add: world_simps)
  show "outcome (executeDlv DEFAULT_SETTINGS
      (exampleWorld\<lparr>solver := Fails 40 (Error ''Command failed: dlv'')\<rparr>) ''a :- b.'' ''asp'') =
     Returns \<lparr> stdout = [], stderr = ''Command failed: dlv'' \<rparr>"
    using executeDlv_never_throws [of DEFAULT_SETTINGS
      "exampleWorld\<lparr>solver := Fails 40 (Error ''Command failed: dlv'')\<rparr>" "''a :- b.''" "''asp''"]
    by (simp add: world_simps)
  show "outcome (executeDlv (DEFAULT_SETTINGS\<lparr>executionTimeout := 1000\<rparr>)
      (exampleWorld\<lparr>solver := NeverExits\<rparr>) ''a :- b.'' ''asp'') =
     Returns \<lparr> stdout = [], stderr = ''Execution timeout'' \<rparr>"
    using executeDlv_never_throws [of "DEFAULT_SETTINGS\<lparr>executionTimeout := 1000\<rparr>"
      "exampleWorld\<lparr>solver := NeverExits\<rparr>" "''a :- b.''" "''asp''"]
    by (simp add: world_simps)
  show "outcome (executeDlv DEFAULT_SETTINGS
      (exampleWorld\<lparr>solver := NeverExits, abortAt := Some (AfterSpawn 500)\<rparr>)
      ''a :- b.'' ''asp'') =
     Returns \<lparr> stdout = [], stderr = ''Execution aborted'' \<rparr>"
    using executeDlv_never_throws [of DEFAULT_SETTINGS
      "exampleWorld\<lparr>solver := NeverExits, abortAt := Some (AfterSpawn 500)\<rparr>"
      "''a :- b.''" "''asp''"]
    by (simp add: world_simps)
  show "outcome (executeDlv DEFAULT_SETTINGS
      (exampleWorld\<lparr>solver := NeverExits, abortAt := Some DuringMkdir\<rparr>)
      ''a :- b.'' ''asp'') =
     Returns \<lparr> stdout = [], stderr = ''Execution aborted'' \<rparr>"
    using executeDlv_never_throws [of DEFAULT_SETTINGS
      "exampleWorld\<lparr>solver := NeverExits, abortAt := Some DuringMkdir\<rparr>"
      "''a :- b.''" "''asp''"]
    by (simp add: world_simps)
  show "outcome (executeDlv DEFAULT_SETTINGS
      (exampleWorld\<lparr>solver := Exits 40 ''DLV 2.1.0\<newline>{a,b}\<newline>'' []\<rparr>) ''a :- b.'' ''asp'') =
     Returns \<lparr> stdout = cleanOutput ''DLV 2.1.0\<newline>{a,b}\<newline>'', stderr = cleanErrors [] \<rparr>"
    using executeDlv_never_throws [of DEFAULT_SETTINGS
      "exampleWorld\<lparr>solver := Exits 40 ''DLV 2.1.0\<newline>{a,b}\<newline>'' []\<rparr>" "''a :- b.''" "''asp''"]
    by (simp add: world_simps)
qed

theorem executeDlv_timeout_witness:
  "outcome (executeDlv (DEFAULT_SETTINGS\<lparr>executionTimeout := 1000\<rparr>)
       (exampleWorld\<lparr>solver := Exits 5000 ''{a}'' []\<rparr>) ''a.'' ''asp'') =
     Returns \<lparr> stdout = [], stderr = ''Execution timeout'' \<rparr>"
  by (rule executeDlv_timeout) (simp_all add: world_simps)

lemmas engine_simps =
  executeDlv_def tryBlock_def awaitExec_def execPromise_def getDlvPath_def abortsDuring_def
  abortedBy_def catchBlock_def buildArgs_def commandLine_def quoted_def Let_def

text \<open>
  C1, as the claim states it, fails: with no timeout set and no abort signal, a solver
  process that never exits leaves the call waiting, so the caller gets no value.
\<close>

theorem executeDlv_pending_counterexample:
  "outcome (executeDlv DEFAULT_SETTINGS (exampleWorld\<lparr>solver := NeverExits\<rparr>)
       ''a :- b.'' ''asp'') = Pending"
  by (simp add: engine_simps world_simps)

text \<open>
  C2, as the claim states it, fails: after the timeout nothing is marked aborted, and
  \<open>controller.abort()\<close> has not been called, so the process goes on running.
\<close>

theorem executeDlv_timeout_counterexample:
  "signalAborted (executeDlv (DEFAULT_SETTINGS\<lparr>executionTimeout := 1000\<rparr>)
       (exampleWorld\<lparr>solver := Exits 5000 ''{a}'' []\<rparr>) ''a.'' ''asp'') = False \<and>
   Abort \<notin> set (effects (executeDlv (DEFAULT_SETTINGS\<lparr>executionTimeout := 1000\<rparr>)
       (exampleWorld\<lparr>solver := Exits 5000 ''{a}'' []\<rparr>) ''a.'' ''asp''))"
  by (simp add: engine_simps world_simps)

text \<open>
  C4 at a failing input: the solver ends with an exit code that is not 0. The temporary
  file has been written, and the call ends without an \<open>unlink\<close> of it: the \<open>unlink\<close>
  stands at the end of the \<open>try\<close> block, which the rejection leaves early.
\<close>

theorem executeDlv_failure_keeps_temp_file:
  "effects (executeDlv DEFAULT_SETTINGS
       (exampleWorld\<lparr>solver := Fails 40 (Error ''Command failed: dlv'')\<rparr>) ''a :- b.'' ''asp'') =
     [Register, Access ''/vault/.obsidian/plugins/dlv/executables/dlv.exe'', Mkdir ''/tmp'',
      WriteFile ''/tmp/dlv-temp-1700000000000.asp'' ''a :- b.'',
      Spawn ''\"/vault/.obsidian/plugins/dlv/executables/dlv.exe\" \"/tmp/dlv-temp-1700000000000.asp\"'',
      Deregister]"
  by (simp add: engine_simps world_simps tmpName_example)


section \<open>Invocation arguments: results\<close>

lemma executeDlv_spawns:
  assumes "accessResult w = None" and "mkdirResult w = None" and "writeFileResult w = None"
  shows "Spawn (commandLine (getDlvPath settings w)
                 (buildArgs settings (pathJoin w (tmpdir w) (tmpName (now w) lang))))
           \<in> set (effects (executeDlv settings w content lang))"
proof -
  obtain r aborted where "awaitExec settings w = (r, aborted)"
    by (cases "awaitExec settings w")
  with assms show ?thesis
    by (cases r) (auto simp: executeDlv_def tryBlock_def Let_def split: prod.splits option.splits)
qed

text \<open>
  C9. The argument list is the temporary file path, then \<open>-n\<close> and \<open>0\<close> exactly when
  \<open>showAllModels\<close> is set, then \<open>--no-facts\<close> exactly when \<open>hideFacts\<close> is set, and
  nothing else. It is the list that \<open>executeDlv\<close> puts on the command line of the
  solver, for the temporary file it has written.
\<close>

theorem buildArgs_fixed_order:
  "buildArgs settings tmpFile =
     [tmpFile] @ (if showAllModels settings then [''-n'', ''0''] else [])
               @ (if hideFacts settings then [''--no-facts''] else []) \<and>
   (accessResult w = None \<and> mkdirResult w = None \<and> writeFileResult w = None \<longrightarrow>
      Spawn (commandLine (getDlvPath settings w)
               (buildArgs settings (pathJoin w (tmpdir w) (tmpName (now w) lang))))
        \<in> set (effects (executeDlv settings w content lang)))"
proof (rule conjI)
  show "buildArgs settings tmpFile =
     [tmpFile] @ (if showAllModels settings then [''-n'', ''0''] else [])
               @ (if hideFacts settings then [''--no-facts''] else [])"
    by (simp add: buildArgs_def)
  show "accessResult w = None \<and> mkdirResult w = None \<and> writeFileResult w = None \<longrightarrow>
      Spawn (commandLine (getDlvPath settings w)
               (buildArgs settings (pathJoin w (tmpdir w) (tmpName (now w) lang))))
        \<in> set (effects (executeDlv settings w content lang))"
    using executeDlv_spawns [of w settings lang content] by blast
qed

theorem buildArgs_fixed_order_witness:
  "buildArgs (DEFAULT_SETTINGS\<lparr>showAllModels := True, hideFacts := True\<rparr>) ''/tmp/dlv-temp-1700000000000.asp'' =
     [''/tmp/dlv-temp-1700000000000.asp'', ''-n'', ''0'', ''--no-facts''] \<and>
   Spawn ''\"/vault/.obsidian/plugins/dlv/executables/dlv.exe\" \"/tmp/dlv-temp-1700000000000.asp\" \"-n\" \"0\" \"--no-facts\"''
     \<in> set (effects (executeDlv (DEFAULT_SETTINGS\<lparr>showAllModels := True, hideFacts := True\<rparr>)
                       exampleWorld ''a :- b.'' ''asp''))"
proof -
  let ?s = "DEFAULT_SETTINGS\<lparr>showAllModels := True, hideFacts := True\<rparr>"
  note inst = buildArgs_fixed_order [of ?s _ exampleWorld "''asp''" "''a :- b.''"]
  have args: "buildArgs ?s ''/tmp/dlv-temp-1700000000000.asp'' =
     [''/tmp/dlv-temp-1700000000000.asp'', ''-n'', ''0'', ''--no-facts'']"
    using inst [of "''/tmp/dlv-temp-1700000000000.asp''"] by (simp add: DEFAULT_SETTINGS_def)
  have "accessResult exampleWorld = None \<and> mkdirResult exampleWorld = None \<and>
        writeFileResult exampleWorld = None"
    by (simp add: exampleWorld_def)
  with inst have "Spawn (commandLine (getDlvPath ?s exampleWorld)
               (buildArgs ?s (pathJoin exampleWorld (tmpdir exampleWorld) (tmpName (now exampleWorld) ''asp''))))
        \<in> set (effects (executeDlv ?s exampleWorld ''a :- b.'' ''asp''))"
    by blast
  moreover have "pathJoin exampleWorld (tmpdir exampleWorld) (tmpName (now exampleWorld) ''asp'') =
                 ''/tmp/dlv-temp-1700000000000.asp''"
    by (simp add: exampleWorld_def tmpName_example)
  moreover have "getDlvPath ?s exampleWorld = ''/vault/.obsidian/plugins/dlv/executables/dlv.exe''"
    by (simp add: getDlvPath_def exampleWorld_def DEFAULT_SETTINGS_def)
  ultimately have "Spawn (commandLine ''/vault/.obsidian/plugins/dlv/executables/dlv.exe''
               [''/tmp/dlv-temp-1700000000000.asp'', ''-n'', ''0'', ''--no-facts''])
        \<in> set (effects (executeDlv ?s exampleWorld ''a :- b.'' ''asp''))"
    by (simp only: args)
  then show ?thesis
    using args by (simp add: commandLine_def quoted_def)
qed

section \<open>Temporary file names: results\<close>

lemma digitChar_of_char: "d < 10 \<Longrightarrow> of_char (digitChar d) = 48 + d"
  unfolding digitChar_def by (simp add: of_char_of)

lemma digitChar_isDigit: "d < 10 \<Longrightarrow> isDigit (digitChar d)"
  unfolding isDigit_def digitChar_def Let_def by (simp add: of_char_of)

lemma digitChar_inj: "a < 10 \<Longrightarrow> b < 10 \<Longrightarrow> digitChar a = digitChar b \<Longrightarrow> a = b"
proof -
  assume a: "a < 10" and b: "b < 10" and eq: "digitChar a = digitChar b"
  from eq have "(of_char (digitChar a) :: nat) = of_char (digitChar b)" by (rule arg_cong)
  then have "48 + a = 48 + b"
    by (simp only: digitChar_of_char [OF a] digitChar_of_char [OF b])
  then show "a = b" by (rule add_left_imp_eq)
qed

lemma digitsOf_small: "n < 10 \<Longrightarrow> digitsOf n = [digitChar n]"
  by (subst digitsOf.simps) simp

lemma digitsOf_large:
  "\<not> n < 10 \<Longrightarrow> digitsOf n = digitsOf (n div 10) @ [digitChar (n mod 10)]"
  by (subst digitsOf.simps) simp

lemma digitsOf_not_Nil: "digitsOf n \<noteq> []"
  by (cases "n < 10") (simp_all add: digitsOf_small digitsOf_large)

lemma digitsOf_digits: "c \<in> set (digitsOf n) \<Longrightarrow> isDigit c"
proof (induction n rule: digitsOf.induct)
  case (1 n)
  show ?case
  proof (cases "n < 10")
    case True
    with "1.prems" show ?thesis
      by (simp add: digitsOf_small digitChar_isDigit)
  next
    case False
    with "1.prems" have "c \<in> set (digitsOf (n div 10)) \<or> c = digitChar (n mod 10)"
      by (auto simp: digitsOf_large)
    with False "1.IH" show ?thesis
      by (auto simp: digitChar_isDigit)
  qed
qed

lemma digitsOf_length_1: "length (digitsOf n) = Suc 0 \<longleftrightarrow> n < 10"
proof (cases "n < 10")
  case True
  then show ?thesis by (simp add: digitsOf_small)
next
  case False
  with digitsOf_not_Nil [of "n div 10"] show ?thesis
    by (simp add: digitsOf_large)
qed

lemma digitsOf_inj: "digitsOf n = digitsOf m \<Longrightarrow> n = m"
proof (induction n arbitrary: m rule: digitsOf.induct)
  case (1 n)
  show ?case
  proof (cases "n < 10")
    case True
    then have "length (digitsOf n) = Suc 0" by (simp add: digitsOf_length_1)
    with "1.prems" have m: "m < 10" by (simp add: digitsOf_length_1)
    from "1.prems" True m have "digitChar n = digitChar m"
      by (simp add: digitsOf_small)
    with True m show ?thesis by (rule digitChar_inj)
  next
    case False
    then have "length (digitsOf n) \<noteq> Suc 0" by (simp add: digitsOf_length_1)
    with "1.prems" have m: "\<not> m < 10" by (simp add: digitsOf_length_1)
    from "1.prems" False m
    have eq: "digitsOf (n div 10) = digitsOf (m div 10)" "digitChar (n mod 10) = digitChar (m mod 10)"
      by (simp_all add: digitsOf_large)
    from "1.IH" [OF False eq(1)] have "n div 10 = m div 10" .
    moreover from eq(2) have "n mod 10 = m mod 10"
      by (rule digitChar_inj [rotated 2]) simp_all
    ultimately show ?thesis
      by (metis div_mult_mod_eq)
  qed
qed

lemma not_isDigit_dot: "\<not> isDigit CHR ''.''" "\<not> isDigit CHR ''-''"
  by (simp_all add: isDigit_def)

lemma takeWhile_digits_dot:
  "\<forall>c \<in> set ds. isDigit c \<Longrightarrow> takeWhile isDigit (ds @ CHR ''.'' # l) = ds"
  by (simp add: takeWhile_append2 not_isDigit_dot)

lemma digits_dot_unique:
  assumes "\<forall>c \<in> set ds. isDigit c" and "\<forall>c \<in> set es. isDigit c"
    and "ds @ CHR ''.'' # l = es @ CHR ''.'' # m"
  shows "ds = es \<and> l = m"
proof -
  have "takeWhile isDigit (ds @ CHR ''.'' # l) = takeWhile isDigit (es @ CHR ''.'' # m)"
    using assms(3) by simp
  then have "ds = es"
    by (simp only: takeWhile_digits_dot [OF assms(1)] takeWhile_digits_dot [OF assms(2)])
  with assms(3) show ?thesis by simp
qed

lemma digitsOf_dot_unique:
  "digitsOf a @ CHR ''.'' # l = digitsOf b @ CHR ''.'' # m \<Longrightarrow> a = b \<and> l = m"
  using digits_dot_unique [of "digitsOf a" "digitsOf b" l m]
  by (auto dest: digitsOf_digits digitsOf_inj)

lemma digitsOf_no_minus: "digitsOf a @ s \<noteq> CHR ''-'' # t"
proof
  assume eq: "digitsOf a @ s = CHR ''-'' # t"
  obtain c cs where c: "digitsOf a = c # cs"
    using digitsOf_not_Nil [of a] by (cases "digitsOf a") auto
  then have "isDigit c" using digitsOf_digits [of c a] by simp
  moreover from eq c have "c = CHR ''-''" by simp
  ultimately show False by (simp add: not_isDigit_dot)
qed

lemma numberToString_dot_unique:
  assumes "numberToString i @ CHR ''.'' # l = numberToString j @ CHR ''.'' # m"
  shows "i = j \<and> l = m"
proof (cases "i < 0"; cases "j < 0")
  assume "i < 0" "j < 0"
  with assms show ?thesis
    by (auto simp: numberToString_def dest!: digitsOf_dot_unique)
next
  assume "i < 0" "\<not> j < 0"
  with assms digitsOf_no_minus [of "nat j"] show ?thesis
    by (auto simp: numberToString_def dest: sym)
next
  assume "\<not> i < 0" "j < 0"
  with assms digitsOf_no_minus [of "nat i"] show ?thesis
    by (auto simp: numberToString_def)
next
  assume "\<not> i < 0" "\<not> j < 0"
  with assms show ?thesis
    by (auto simp: numberToString_def dest!: digitsOf_dot_unique)
qed

text \<open>
  C8, as the code has it. The name of the temporary file is made of the clock reading and
  the language tag, and of nothing else: two executions get different names exactly when
  their readings of \<open>Date.now()\<close> differ or their tags differ.
\<close>

theorem tmpName_distinct:
  "tmpName now1 lang1 = tmpName now2 lang2 \<longleftrightarrow> now1 = now2 \<and> lang1 = lang2"
  using numberToString_dot_unique [of now1 lang1 now2 lang2]
  by (auto simp: tmpName_def)

text \<open>
  C8, as the claim states it, fails: two executions that read the same millisecond from
  \<open>Date.now()\<close>, with the same tag, write their different sources to the same file.
\<close>

theorem tmpName_collision_counterexample:
  "WriteFile ''/tmp/dlv-temp-1700000000000.asp'' ''a.'' \<in>
     set (effects (executeDlv DEFAULT_SETTINGS exampleWorld ''a.'' ''asp'')) \<and>
   WriteFile ''/tmp/dlv-temp-1700000000000.asp'' ''b.'' \<in>
     set (effects (executeDlv DEFAULT_SETTINGS exampleWorld ''b.'' ''asp''))"
  by (simp add: engine_simps world_simps tmpName_example)

section \<open>Result sinks: results\<close>

lemma trim_fixed_nonblank: "trim s = s \<Longrightarrow> s = [] \<or> trim s \<noteq> []"
  by auto











section \<open>Output sanitizer: results\<close>

lemma startsWith_take: "startsWith s p \<longleftrightarrow> take (length p) s = p"
  by (induction s p rule: startsWith.induct) auto

lemma lit_None: "\<not> startsWith s p \<Longrightarrow> lit p s = None"
  by (simp add: lit_def startsWith_take)

lemma seqs_first_None: "m s = None \<Longrightarrow> seqs (m # ms) s = None"
  by simp

lemma genericWarning_None:
  "\<not> startsWith s ''Generic warning: '' \<Longrightarrow> genericWarning s = None"
  unfolding genericWarning_def by (rule seqs_first_None) (rule lit_None)

lemma findFirst_None_Cons:
  "findFirst m (c # cs) = None \<longleftrightarrow> m (c # cs) = None \<and> findFirst m cs = None"
  by (simp split: option.splits)

lemma replaceAll_no_match: "findFirst m s = None \<Longrightarrow> replaceAll m rep s = s"
  by (induction s) (simp_all add: findFirst_None_Cons del: findFirst.simps)

lemma findFirst_genericWarning:
  "\<not> includesStr s ''Generic warning: '' \<Longrightarrow> findFirst genericWarning s = None"
  by (induction s) (simp_all add: genericWarning_None del: startsWith.simps)

lemma cleanOutput_stable:
  assumes "versionBanner t = None" and "\<not> includesStr t ''Generic warning: ''"
    and "trim t = t"
  shows "cleanOutput t = t"
  using assms by (simp add: cleanOutput_def replaceAll_no_match findFirst_genericWarning)

lemma split_not_Nil: "split sep s \<noteq> []"
  by (induction s) (auto split: list.splits)

lemma join_split: "join [sep] (split sep s) = s"
proof (induction s)
  case Nil
  show ?case by simp
next
  case (Cons c s)
  obtain p ps where ps: "split sep s = p # ps"
    using split_not_Nil [of sep s] by (cases "split sep s") auto
  show ?case
  proof (cases "c = sep")
    case True
    with Cons ps show ?thesis by simp
  next
    case False
    with Cons ps show ?thesis by (cases ps) simp_all
  qed
qed

lemma split_first_line:
  "split sep s = p # ps \<Longrightarrow> p = takeWhile (\<lambda>x. x \<noteq> sep) s"
  by (induction s arbitrary: p ps) (auto simp: split_not_Nil split: if_splits list.splits)

lemma firstLine_decomp:
  obtains r where "s = takeWhile (\<lambda>x. x \<noteq> CHR 0x0A) s @ r" and "r = [] \<or> hd r = CHR 0x0A"
proof
  show "s = takeWhile (\<lambda>x. x \<noteq> CHR 0x0A) s @ dropWhile (\<lambda>x. x \<noteq> CHR 0x0A) s" by simp
  show "dropWhile (\<lambda>x. x \<noteq> CHR 0x0A) s = [] \<or> hd (dropWhile (\<lambda>x. x \<noteq> CHR 0x0A) s) = CHR 0x0A"
    using hd_dropWhile [of "\<lambda>x. x \<noteq> CHR 0x0A" s] by auto
qed

lemma litI_line_local:
  assumes "r = [] \<or> hd r = CHR 0x0A"
  shows "litI ''line '' (f @ r) = litI ''line '' f"
proof (cases "5 \<le> length f")
  case True
  then show ?thesis by (simp add: litI_def)
next
  case False
  then have short: "toLowerCase (take 5 f) \<noteq> ''line ''"
    by (auto simp: toLowerCase_def dest!: arg_cong [where f = length])
  show ?thesis
  proof (cases r)
    case Nil
    then show ?thesis by simp
  next
    case (Cons x r')
    with assms have x: "x = CHR 0x0A" by simp
    have "take 5 (f @ r) = f @ CHR 0x0A # take (4 - length f) r'"
      using False Cons x by (simp add: take_Cons')
    then have "CHR 0x0A \<in> set (toLowerCase (take 5 (f @ r)))"
      by (simp add: toLowerCase_def toLowerCaseChar_def)
    then have long: "toLowerCase (take 5 (f @ r)) \<noteq> ''line ''"
      by auto
    have len: "length ''line '' = 5" by simp
    show ?thesis by (simp only: litI_def len short long if_False)
  qed
qed

lemma plus_isDigit_local:
  assumes "r = [] \<or> hd r = CHR 0x0A"
  shows "plus isDigit (g @ r) = plus isDigit g"
proof (cases r)
  case Nil
  then show ?thesis by simp
next
  case (Cons x r')
  with assms have "\<not> isDigit x" by (simp add: isDigit_def)
  with Cons show ?thesis by (simp add: plus_def takeWhile_tail)
qed

lemma lit_colon_local:
  assumes "r = [] \<or> hd r = CHR 0x0A"
  shows "lit '':'' (g @ r) = lit '':'' g"
  using assms by (cases g; cases r) (simp_all add: lit_def)

lemma plus_bound: "plus P g = Some n \<Longrightarrow> n \<le> length g"
  by (auto simp: plus_def Let_def length_takeWhile_le split: if_splits)

lemma lineLabel_local:
  assumes r: "r = [] \<or> hd r = CHR 0x0A"
  shows "lineLabel (f @ r) = lineLabel f"
proof (cases "litI ''line '' f")
  case None
  then show ?thesis by (simp add: lineLabel_def litI_line_local [OF r])
next
  case (Some k)
  then have k: "k = 5" "5 \<le> length f"
    by (auto simp: litI_def toLowerCase_def split: if_splits dest!: arg_cong [where f = length])
  then have drop5: "drop 5 (f @ r) = drop 5 f @ r" by simp
  show ?thesis
  proof (cases "plus isDigit (drop 5 f)")
    case None
    with Some k show ?thesis
      by (simp add: lineLabel_def litI_line_local [OF r] drop5 plus_isDigit_local [OF r])
  next
    case digits: (Some n)
    from plus_bound [OF digits] have "drop n (drop 5 f @ r) = drop n (drop 5 f) @ r" by simp
    with Some k digits show ?thesis
      by (simp add: lineLabel_def litI_line_local [OF r] drop5 plus_isDigit_local [OF r]
            lit_colon_local [OF r] split: option.splits)
  qed
qed

lemma lineLabel_first_line:
  "lineLabel s = lineLabel (takeWhile (\<lambda>x. x \<noteq> CHR 0x0A) s)"
proof -
  obtain r where "s = takeWhile (\<lambda>x. x \<noteq> CHR 0x0A) s @ r" and "r = [] \<or> hd r = CHR 0x0A"
    by (rule firstLine_decomp)
  then show ?thesis using lineLabel_local [of r "takeWhile (\<lambda>x. x \<noteq> CHR 0x0A) s"] by simp
qed

lemma lineLabel_LF: "lineLabel (CHR 0x0A # s) = None"
  by (simp add: lineLabel_def litI_def toLowerCase_def toLowerCaseChar_def)

lemma findFirst_lineLabel_lines:
  "\<forall>line \<in> set (split CHR 0x0A t). findFirst lineLabel line = None \<Longrightarrow>
     findFirst lineLabel t = None"
proof (induction t)
  case Nil
  show ?case by simp
next
  case (Cons c cs)
  obtain p ps where ps: "split CHR 0x0A cs = p # ps"
    using split_not_Nil [of "CHR 0x0A" cs] by (cases "split CHR 0x0A cs") auto
  show ?case
  proof (cases "c = CHR 0x0A")
    case True
    with Cons show ?thesis by (simp add: lineLabel_LF)
  next
    case False
    with Cons.prems ps have first: "findFirst lineLabel (c # p) = None"
      and rest: "\<forall>line \<in> set ps. findFirst lineLabel line = None"
      by simp_all
    from first have here: "lineLabel (c # p) = None" and p: "findFirst lineLabel p = None"
      by (simp_all split: option.splits)
    from p rest ps have "findFirst lineLabel cs = None"
      by (intro Cons.IH) simp
    moreover have "lineLabel (c # cs) = None"
      using here False split_first_line [OF ps] lineLabel_first_line [of "c # cs"] by simp
    ultimately show ?thesis by simp
  qed
qed

lemma cleanLine_stable:
  assumes "findFirst filePath line = None" and "findFirst tempFileName line = None"
    and "findFirst lineLabel line = None"
    and "\<not> includesStr line ''Command failed:''" and "\<not> includesStr line ''Aborting due to''"
  shows "cleanLine line = line"
  using assms by (simp add: cleanLine_def replaceAll_no_match)

lemma stripTrailingDots_stable: "s = [] \<or> \<not> isDotOrColon (last s) \<Longrightarrow> stripTrailingDots s = s"
  by (cases s rule: rev_cases) (auto simp: stripTrailingDots_def)

lemma cleanErrors_stable:
  assumes lines: "\<forall>line \<in> set (split CHR 0x0A t). cleanLine line = line \<and> trim line \<noteq> []"
    and label: "findFirst lineLabel t = None"
    and dots: "t = [] \<or> \<not> isDotOrColon (last t)"
    and trimmed: "trim t = t"
  shows "cleanErrors t = t"
proof -
  have "map cleanLine (split CHR 0x0A t) = split CHR 0x0A t"
    using lines by (simp add: map_idI)
  moreover have "filter (\<lambda>line. trim line \<noteq> []) (split CHR 0x0A t) = split CHR 0x0A t"
    using lines by (simp add: filter_id_conv)
  ultimately show ?thesis
    using join_split [of "CHR 0x0A" t] label dots trimmed
    by (simp add: cleanErrors_def replaceAll_no_match stripTrailingDots_stable)
qed

text \<open>
  C3, as the code has it. Cleaning a second time changes nothing when the cleaned text has
  nothing left to clean. For \<open>cleanOutput\<close>: the cleaned text does not start with a
  version banner and holds no \<open>Generic warning: \<close>. For \<open>cleanErrors\<close>: the cleaned text
  is empty, or it has no blank line, no file path, no \<open>dlv-temp-N.asp\<close> name, no
  \<open>line N:\<close> label, no \<open>Command failed:\<close> and no \<open>Aborting due to\<close>, and does not end
  in a dot or a colon.
\<close>

theorem sanitizer_idempotent_when_clean:
  "(versionBanner (cleanOutput out) = None \<and>
    \<not> includesStr (cleanOutput out) ''Generic warning: '' \<longrightarrow>
      cleanOutput (cleanOutput out) = cleanOutput out) \<and>
   (cleanErrors err = [] \<or>
    (\<forall>line \<in> set (split CHR 0x0A (cleanErrors err)).
        trim line \<noteq> [] \<and>
        findFirst filePath line = None \<and> findFirst tempFileName line = None \<and>
        findFirst lineLabel line = None \<and>
        \<not> includesStr line ''Command failed:'' \<and> \<not> includesStr line ''Aborting due to'') \<and>
    \<not> isDotOrColon (last (cleanErrors err)) \<longrightarrow>
      cleanErrors (cleanErrors err) = cleanErrors err)"
proof (intro conjI impI)
  assume "versionBanner (cleanOutput out) = None \<and>
    \<not> includesStr (cleanOutput out) ''Generic warning: ''"
  then show "cleanOutput (cleanOutput out) = cleanOutput out"
    by (simp add: cleanOutput_stable cleanOutput_trimmed)
next
  assume clean: "cleanErrors err = [] \<or>
    (\<forall>line \<in> set (split CHR 0x0A (cleanErrors err)).
        trim line \<noteq> [] \<and>
        findFirst filePath line = None \<and> findFirst tempFileName line = None \<and>
        findFirst lineLabel line = None \<and>
        \<not> includesStr line ''Command failed:'' \<and> \<not> includesStr line ''Aborting due to'') \<and>
    \<not> isDotOrColon (last (cleanErrors err))"
  show "cleanErrors (cleanErrors err) = cleanErrors err"
  proof (cases "cleanErrors err = []")
    case True
    have "cleanErrors [] = []"
      by (simp add: cleanErrors_def cleanLine_def trim_def stripTrailingDots_def)
    with True show ?thesis by simp
  next
    case False
    with clean have
      lines: "\<forall>line \<in> set (split CHR 0x0A (cleanErrors err)).
                cleanLine line = line \<and> trim line \<noteq> []"
      and labels: "\<forall>line \<in> set (split CHR 0x0A (cleanErrors err)).
                findFirst lineLabel line = None"
      and dots: "\<not> isDotOrColon (last (cleanErrors err))"
      by (auto simp: cleanLine_stable)
    from labels have label: "findFirst lineLabel (cleanErrors err) = None"
      by (rule findFirst_lineLabel_lines)
    from lines label dots show ?thesis
      by (intro cleanErrors_stable cleanErrors_trimmed) simp_all
  qed
qed

theorem sanitizer_idempotent_when_clean_witness:
  "cleanOutput (cleanOutput ''DLV 2.1.0\<newline>Answer: 1\<newline>{a,b}\<newline>'') =
     cleanOutput ''DLV 2.1.0\<newline>Answer: 1\<newline>{a,b}\<newline>'' \<and>
   cleanErrors (cleanErrors ''/tmp/dlv-temp-1700000000000.asp: line 3: syntax error'') =
     cleanErrors ''/tmp/dlv-temp-1700000000000.asp: line 3: syntax error''"
proof -
  let ?out = "''DLV 2.1.0\<newline>Answer: 1\<newline>{a,b}\<newline>''"
  let ?err = "''/tmp/dlv-temp-1700000000000.asp: line 3: syntax error''"
  have out: "cleanOutput ?out = ''Answer: 1\<newline>{a,b}''" by code_simp
  have err: "cleanErrors ?err = ''Errore:\<newline>line 3 syntax error''" by code_simp
  have h1: "versionBanner (cleanOutput ?out) = None \<and>
    \<not> includesStr (cleanOutput ?out) ''Generic warning: ''"
    unfolding out by code_simp
  have h2: "cleanErrors ?err = [] \<or>
    (\<forall>line \<in> set (split CHR 0x0A (cleanErrors ?err)).
        trim line \<noteq> [] \<and>
        findFirst filePath line = None \<and> findFirst tempFileName line = None \<and>
        findFirst lineLabel line = None \<and>
        \<not> includesStr line ''Command failed:'' \<and> \<not> includesStr line ''Aborting due to'') \<and>
    \<not> isDotOrColon (last (cleanErrors ?err))"
    unfolding err by code_simp
  from sanitizer_idempotent_when_clean [of ?out ?err] h1 h2 show ?thesis by blast
qed

text \<open>
  C3, as the claim states it, fails. Only the banner at the start is removed, so a second
  banner goes at the second cleaning. Dots at the end are removed before the text is
  trimmed, so a dot in front of a line end (here CR LF) goes at the second cleaning.
\<close>

theorem sanitizer_not_idempotent_counterexample:
  "cleanOutput (cleanOutput ''DLV 2.1.0\<newline>DLV 2.1.0\<newline>{a}'') \<noteq>
     cleanOutput ''DLV 2.1.0\<newline>DLV 2.1.0\<newline>{a}'' \<and>
   cleanErrors (cleanErrors (''syntax error.'' @ [CHR 0x0D, CHR 0x0A])) \<noteq>
     cleanErrors (''syntax error.'' @ [CHR 0x0D, CHR 0x0A])"
  by code_simp


















end
